theory Spec2Isabelle
  imports Complex_Main "HOL-Library.Char_ord" "HOL-Library.List_Lexorder"
    "HOL-Library.Product_Lexorder" "HOL-Library.Multiset"
begin

section \<open>Text\<close>

text \<open>
  Python strings are modelled as \<open>string\<close> over ASCII. \<open>strip\<close> is \<^verbatim>\<open>str.strip()\<close>
  (the ASCII characters for which \<^verbatim>\<open>str.isspace\<close> holds are removed at both ends),
  \<open>upper\<close> is \<^verbatim>\<open>str.upper()\<close> and also SQL's \<^verbatim>\<open>upper()\<close>, which agree on ASCII.
  Strings are ordered lexicographically by character code, as \<^verbatim>\<open>ORDER BY\<close> orders text
  under the binary collation.
\<close>

definition is_space :: "char \<Rightarrow> bool" where
  "is_space c = (c \<in> set [CHR '' '', CHR 0x09, CHR 0x0A, CHR 0x0B, CHR 0x0C, CHR 0x0D,
                            CHR 0x1C, CHR 0x1D, CHR 0x1E, CHR 0x1F])"

definition strip :: "string \<Rightarrow> string" where
  "strip s = rev (dropWhile is_space (rev (dropWhile is_space s)))"

definition upper_char :: "char \<Rightarrow> char" where
  "upper_char c =
     (case map_of (zip ''abcdefghijklmnopqrstuvwxyz'' ''ABCDEFGHIJKLMNOPQRSTUVWXYZ'') c of
        Some u \<Rightarrow> u
      | None \<Rightarrow> c)"

definition upper :: "string \<Rightarrow> string" where
  "upper s = map upper_char s"

text \<open>\<^verbatim>\<open>s.split(sep)\<close> for a one-character separator: always at least one field.\<close>

fun str_split :: "char \<Rightarrow> string \<Rightarrow> string list" where
  "str_split sep [] = [[]]"
| "str_split sep (c # cs) =
     (if c = sep then [] # str_split sep cs
      else (case str_split sep cs of
              [] \<Rightarrow> [[c]]
            | f # fs \<Rightarrow> (c # f) # fs))"

text \<open>\<^verbatim>\<open>sep.join(xs)\<close>.\<close>

fun str_join :: "string \<Rightarrow> string list \<Rightarrow> string" where
  "str_join sep [] = []"
| "str_join sep [x] = x"
| "str_join sep (x # y # ys) = x @ sep @ str_join sep (y # ys)"

text \<open>The decimal numeral of a natural number, as an f-string prints it.\<close>

fun str_nat :: "nat \<Rightarrow> string" where
  "str_nat n =
     (if n < 10 then [''0123456789'' ! n]
      else str_nat (n div 10) @ [''0123456789'' ! (n mod 10)])"

declare str_nat.simps [simp del]


text \<open>\<^verbatim>\<open>repr\<close> of a string, as it appears in the messages of the built-in conversions
  (escapes are not modelled).\<close>

definition py_repr :: "string \<Rightarrow> string" where
  "py_repr s = [CHR 0x27] @ s @ [CHR 0x27]"

section \<open>The built-in conversions \<^verbatim>\<open>int()\<close> and \<^verbatim>\<open>float()\<close> on text\<close>

definition digit_value :: "char \<Rightarrow> nat option" where
  "digit_value c = map_of (zip ''0123456789'' [0, 1, 2, 3, 4, 5, 6, 7, 8, 9]) c"

definition is_digit :: "char \<Rightarrow> bool" where
  "is_digit c = (digit_value c \<noteq> None)"

text \<open>A digit part: groups of digits, single underscores allowed between digits.
  The result is the digits with the underscores removed.\<close>

definition digitpart :: "string \<Rightarrow> string option" where
  "digitpart s =
     (let groups = str_split CHR ''_'' s
      in if list_all (\<lambda>g. g \<noteq> [] \<and> list_all is_digit g) groups
         then Some (concat groups) else None)"

definition nat_of_digits :: "string \<Rightarrow> nat" where
  "nat_of_digits ds = foldl (\<lambda>a c. 10 * a + (case digit_value c of Some d \<Rightarrow> d | None \<Rightarrow> 0)) 0 ds"

text \<open>\<^verbatim>\<open>int(s)\<close> in base 10: surrounding whitespace, one optional sign, a digit part.
  \<open>None\<close> stands for the \<^verbatim>\<open>ValueError\<close>.\<close>

definition py_int :: "string \<Rightarrow> int option" where
  "py_int s =
     (case strip s of
        [] \<Rightarrow> None
      | c # cs \<Rightarrow>
          if c = CHR ''-'' then map_option (\<lambda>ds. - int (nat_of_digits ds)) (digitpart cs)
          else if c = CHR ''+'' then map_option (\<lambda>ds. int (nat_of_digits ds)) (digitpart cs)
          else map_option (\<lambda>ds. int (nat_of_digits ds)) (digitpart (c # cs)))"

text \<open>
  \<^verbatim>\<open>float(s)\<close>: surrounding whitespace, one optional sign, a decimal mantissa with at
  least one digit, an optional exponent. Amounts are modelled as reals: the value is the
  number the literal denotes, without the rounding to a double. \<open>None\<close> stands for the
  \<^verbatim>\<open>ValueError\<close>. The spellings of infinity and of NaN, which \<^verbatim>\<open>float()\<close> also accepts,
  denote no real number and are not among the modelled cell texts.
\<close>

definition mantissa :: "string \<Rightarrow> real option" where
  "mantissa s =
     (case str_split CHR ''.'' s of
        [ip] \<Rightarrow> map_option (\<lambda>ds. real (nat_of_digits ds)) (digitpart ip)
      | [ip, fp] \<Rightarrow>
          if ip = [] then
            map_option (\<lambda>fs. real (nat_of_digits fs) / 10 ^ length fs) (digitpart fp)
          else if fp = [] then
            map_option (\<lambda>ds. real (nat_of_digits ds)) (digitpart ip)
          else
            (case (digitpart ip, digitpart fp) of
               (Some ds, Some fs) \<Rightarrow>
                 Some (real (nat_of_digits ds) + real (nat_of_digits fs) / 10 ^ length fs)
             | _ \<Rightarrow> None)
      | _ \<Rightarrow> None)"

definition is_exponent_mark :: "char \<Rightarrow> bool" where
  "is_exponent_mark c = (c = CHR ''e'' \<or> c = CHR ''E'')"

definition scale :: "real \<Rightarrow> int \<Rightarrow> real" where
  "scale x e = (if 0 \<le> e then x * 10 ^ nat e else x / 10 ^ nat (- e))"

definition unsigned_float :: "string \<Rightarrow> real option" where
  "unsigned_float s =
     (let m = takeWhile (\<lambda>c. \<not> is_exponent_mark c) s;
          rest = dropWhile (\<lambda>c. \<not> is_exponent_mark c) s
      in case rest of
           [] \<Rightarrow> mantissa m
         | _ # ex \<Rightarrow>
             (case (mantissa m, if ex = [] then None else py_int ex) of
                (Some x, Some e) \<Rightarrow>
                  if list_all (\<lambda>c. \<not> is_space c) ex then Some (scale x e) else None
              | _ \<Rightarrow> None))"

definition py_float :: "string \<Rightarrow> real option" where
  "py_float s =
     (case strip s of
        [] \<Rightarrow> None
      | c # cs \<Rightarrow>
          if c = CHR ''-'' then map_option uminus (unsigned_float cs)
          else if c = CHR ''+'' then unsigned_float cs
          else unsigned_float (c # cs))"

section \<open>Exceptions\<close>

datatype py_exception =
    ValueError string
  | KeyError string
  | StorageError string
  | Exception string

text \<open>\<^verbatim>\<open>str(e)\<close>: the message.\<close>

fun str_exception :: "py_exception \<Rightarrow> string" where
  "str_exception (ValueError msg) = msg"
| "str_exception (KeyError msg) = msg"
| "str_exception (StorageError msg) = msg"
| "str_exception (Exception msg) = msg"

section \<open>Calendar dates\<close>

text \<open>A \<^verbatim>\<open>datetime.date\<close>. SQL and Python order dates chronologically, which is the
  lexicographic order of \<open>date_key\<close>.\<close>

datatype date = Date (year: nat) (month: nat) (day: nat)









section \<open>The uploaded spreadsheet\<close>

text \<open>
  The uploaded bytes are represented by what \<^verbatim>\<open>pd.read_excel\<close> makes of them: an
  exception, or a data frame with its column labels and its rows in file order.
  A row carries one cell for each of the seven columns the program reads; the cells of a
  column whose label is not among \<open>columns\<close> are never read. The date cell is shown as
  \<^verbatim>\<open>pd.to_datetime(..., errors='coerce')\<close> leaves it (\<open>None\<close> is \<^verbatim>\<open>NaT\<close>), the text cells
  hold text or nothing (\<open>None\<close> is \<^verbatim>\<open>NaN\<close>), and an amount cell is empty, a number or text.
\<close>

datatype cell = NaN | Number real | Text string

record row =
  row_date :: "date option"
  row_head_of_account :: "string option"
  row_category :: "string option"
  row_description :: "string option"
  row_reference :: "string option"
  row_debit :: cell
  row_credit :: cell

record dataframe =
  columns :: "string list"
  rows :: "row list"

datatype file_data = Unreadable string | Workbook dataframe

section \<open>The stored data (models.py)\<close>

text \<open>
  Amounts (\<^verbatim>\<open>db.Float\<close>) are modelled as reals, time stamps (\<^verbatim>\<open>datetime.now()\<close>) as
  natural numbers. Primary keys are natural numbers; a new row gets the largest key of its
  table plus one (SQLite's rowid rule; \<^verbatim>\<open>sqlite:///fas.db\<close> is the default database).
\<close>

record company =
  co_id :: nat
  co_name :: string
  co_created_at :: nat
  co_updated_at :: nat

record company_file =
  cf_id :: nat
  cf_filename :: string
  cf_file_data :: file_data
  cf_content_type :: string
  cf_company_id :: nat
  cf_uploaded_at :: nat
  cf_file_password_hash :: "string option"

record transaction =
  t_id :: nat
  date :: date
  head_of_account :: string
  category :: "string option"
  description :: "string option"
  reference :: "string option"
  debit :: real
  credit :: real
  company_id :: nat
  created_at :: nat

record database =
  companies :: "company list"
  transactions :: "transaction list"
  company_files :: "company_file list"

definition next_id :: "nat list \<Rightarrow> nat" where
  "next_id ids = Suc (foldr max ids 0)"

section \<open>Ingestion (utils.py, process_excel_data)\<close>

definition required_columns :: "string list" where
  "required_columns = [''Date'', ''Head of Accounts'', ''Debit'', ''Credit'']"

text \<open>Lines 100-101: \<^verbatim>\<open>[col for col in required_columns if col not in df.columns]\<close>.\<close>

definition missing_columns :: "dataframe \<Rightarrow> string list" where
  "missing_columns df = filter (\<lambda>col. col \<notin> set (columns df)) required_columns"

text \<open>
  Lines 120-122 and 154-156: an optional text column. When the column is in the file,
  \<^verbatim>\<open>fillna('')\<close> turns an empty cell into the empty string; when it is not,
  \<^verbatim>\<open>df.get(col, pd.Series())\<close> is an empty series and every row is left without a value.
\<close>

definition text_value :: "dataframe \<Rightarrow> string \<Rightarrow> string option \<Rightarrow> string option" where
  "text_value df label c =
     (if label \<in> set (columns df)
      then (case c of None \<Rightarrow> Some [] | Some s \<Rightarrow> Some s)
      else None)"

text \<open>
  Lines 123-124 and 157-158: \<^verbatim>\<open>fillna(0.0)\<close> on the column, then
  \<^verbatim>\<open>float(row.get('debit', 0) or 0)\<close> on the cell. An empty cell has become 0.0; the
  number zero and the empty text are falsy and give \<^verbatim>\<open>float(0)\<close>; other text goes
  through \<^verbatim>\<open>float()\<close>, which raises on text that is no number.
\<close>

definition amount_value :: "cell \<Rightarrow> py_exception + real" where
  "amount_value c =
     (case c of
        NaN \<Rightarrow> Inr 0
      | Number x \<Rightarrow> Inr x
      | Text s \<Rightarrow>
          if s = [] then Inr 0
          else (case py_float s of
                  None \<Rightarrow> Inl (ValueError (''could not convert string to float: '' @ py_repr s))
                | Some x \<Rightarrow> Inr x))"

text \<open>Line 130: \<^verbatim>\<open>df.dropna(subset=['date', 'head_of_account'])\<close>.\<close>

definition dropna :: "row list \<Rightarrow> row list" where
  "dropna rs = filter (\<lambda>r. row_date r \<noteq> None \<and> row_head_of_account r \<noteq> None) rs"

text \<open>Lines 135 and 146: \<^verbatim>\<open>not pd.isna(row['head_of_account']) and row['head_of_account'] != ''\<close>.\<close>

definition has_head :: "row \<Rightarrow> bool" where
  "has_head r = (case row_head_of_account r of None \<Rightarrow> False | Some h \<Rightarrow> h \<noteq> [])"

text \<open>Lines 133-141, the first pass: the dictionary from upper-case key to the first
  spelling seen.\<close>

fun head_of_accounts_map :: "(string \<rightharpoonup> string) \<Rightarrow> row list \<Rightarrow> (string \<rightharpoonup> string)" where
  "head_of_accounts_map m [] = m"
| "head_of_accounts_map m (r # rs) =
     (if has_head r then
        (case row_head_of_account r of
           None \<Rightarrow> head_of_accounts_map m rs
         | Some h \<Rightarrow>
             (let head = strip h; head_upper = upper head
              in if m head_upper = None
                 then head_of_accounts_map (m(head_upper \<mapsto> head)) rs
                 else head_of_accounts_map m rs))
      else head_of_accounts_map m rs)"

text \<open>Lines 148-160: the transaction built from one row. The dictionary lookup raises
  \<^verbatim>\<open>KeyError\<close> on a key it does not hold; the arguments of the constructor are evaluated
  in order, so a bad debit cell is reported before a bad credit cell. The loop calls this
  only for rows that have a date and a head of account (lines 130 and 146); the last case
  stands for the error Python would raise on any other row.\<close>

definition make_transaction ::
  "dataframe \<Rightarrow> (string \<rightharpoonup> string) \<Rightarrow> nat \<Rightarrow> nat \<Rightarrow> nat \<Rightarrow> row \<Rightarrow> py_exception + transaction" where
  "make_transaction df m company now new_id r =
     (case (row_head_of_account r, row_date r) of
        (Some h, Some d) \<Rightarrow>
          (let head = strip h in
           case m (upper head) of
             None \<Rightarrow> Inl (KeyError (py_repr (upper head)))
           | Some normalized_head \<Rightarrow>
               (case amount_value (row_debit r) of
                  Inl e \<Rightarrow> Inl e
                | Inr dr \<Rightarrow>
                    (case amount_value (row_credit r) of
                       Inl e \<Rightarrow> Inl e
                     | Inr cr \<Rightarrow>
                         Inr \<lparr>t_id = new_id, date = d, head_of_account = normalized_head,
                              category = text_value df ''Category'' (row_category r),
                              description = text_value df ''Description'' (row_description r),
                              reference = text_value df ''Ref'' (row_reference r),
                              debit = dr, credit = cr, company_id = company,
                              created_at = now\<rparr>)))
      | _ \<Rightarrow> Inl (ValueError ''row without date or head of account''))"

text \<open>Lines 144-162, the second pass: \<^verbatim>\<open>db.session.add\<close> appends to the session's
  transactions, the counter goes up by one for each row added.\<close>

fun add_transactions ::
  "dataframe \<Rightarrow> (string \<rightharpoonup> string) \<Rightarrow> nat \<Rightarrow> nat \<Rightarrow> row list \<Rightarrow> nat \<times> database
     \<Rightarrow> py_exception + nat \<times> database" where
  "add_transactions df m company now [] (transaction_count, db) = Inr (transaction_count, db)"
| "add_transactions df m company now (r # rs) (transaction_count, db) =
     (if has_head r then
        (case make_transaction df m company now (next_id (map t_id (transactions db))) r of
           Inl e \<Rightarrow> Inl e
         | Inr t \<Rightarrow>
             add_transactions df m company now rs
               (transaction_count + 1, db\<lparr>transactions := transactions db @ [t]\<rparr>))
      else add_transactions df m company now rs (transaction_count, db))"

text \<open>Lines 94-168. Every exception raised inside is caught and raised again as an
  \<^verbatim>\<open>Exception\<close> whose message starts with \<^verbatim>\<open>Failed to process Excel data: \<close>. The session
  is passed in and, on success, returned with the new transactions added.\<close>

definition wrap_failure :: "py_exception \<Rightarrow> py_exception" where
  "wrap_failure e = Exception (''Failed to process Excel data: '' @ str_exception e)"

definition process_excel_data ::
  "nat \<Rightarrow> file_data \<Rightarrow> nat \<Rightarrow> database \<Rightarrow> py_exception + nat \<times> database" where
  "process_excel_data now data company db =
     (case data of
        Unreadable msg \<Rightarrow> Inl (wrap_failure (ValueError msg))
      | Workbook df \<Rightarrow>
          if missing_columns df \<noteq> [] then
            Inl (wrap_failure
                   (ValueError (''Missing required columns: '' @ str_join '', '' (missing_columns df))))
          else
            (let kept = dropna (rows df);
                 m = head_of_accounts_map Map.empty kept
             in case add_transactions df m company now kept (0, db) of
                  Inl e \<Rightarrow> Inl (wrap_failure e)
                | Inr result \<Rightarrow> Inr result))"

section \<open>Upload (routes.py, upload_file)\<close>

text \<open>
  The model starts at line 69, where the request has passed its checks: the company name,
  the secured file name, the content type and the bytes are known. A request works on a
  session that starts from the committed database; \<^verbatim>\<open>commit\<close> makes the session's state
  the committed one, \<^verbatim>\<open>rollback\<close> returns to the last committed state.
  The storage may raise at a \<^verbatim>\<open>flush\<close> or at the final \<^verbatim>\<open>commit\<close>: \<open>fault\<close> names the
  first such place, with the message of the exception, or is \<open>None\<close>.
\<close>

datatype stage = Flush_delete | Flush_add | Commit

type_synonym fault = "(stage \<times> string) option"

definition storage :: "fault \<Rightarrow> stage \<Rightarrow> database \<Rightarrow> py_exception + database" where
  "storage f st db =
     (case f of
        None \<Rightarrow> Inr db
      | Some (st', msg) \<Rightarrow> if st' = st then Inl (StorageError msg) else Inr db)"

text \<open>What a request leaves behind: the committed database, the flashed message with its
  category, and the company id written to the browser session (\<open>None\<close> when line 108 is not
  reached and the session is left as it was).\<close>

record upload_result =
  committed :: database
  flash_message :: string
  flash_category :: string
  selected_company_id :: "nat option"

definition default_content_type :: string where
  "default_content_type = ''application/vnd.openxmlformats-officedocument.spreadsheetml.sheet''"

text \<open>Lines 69-80. The result is the company, the session and the committed database:
  a new company is committed at once (line 80), the changes for an existing one are not.\<close>

definition find_or_create_company ::
  "nat \<Rightarrow> string \<Rightarrow> database \<Rightarrow> company \<times> database \<times> database" where
  "find_or_create_company now company_name db =
     (case find (\<lambda>c. co_name c = company_name) (companies db) of
        Some c \<Rightarrow>
          (let c' = c\<lparr>co_updated_at := now\<rparr>;
               session = db\<lparr>transactions := filter (\<lambda>t. company_id t \<noteq> co_id c) (transactions db),
                            companies := map (\<lambda>x. if co_id x = co_id c then c' else x) (companies db)\<rparr>
           in (c', session, db))
      | None \<Rightarrow>
          (let c = \<lparr>co_id = next_id (map co_id (companies db)), co_name = company_name,
                    co_created_at = now, co_updated_at = now\<rparr>;
               session = db\<lparr>companies := companies db @ [c]\<rparr>
           in (c, session, session)))"

text \<open>Lines 87-105, the body of the \<^verbatim>\<open>try\<close>.\<close>

definition store_and_process ::
  "nat \<Rightarrow> fault \<Rightarrow> company \<Rightarrow> string \<Rightarrow> string \<Rightarrow> file_data \<Rightarrow> database
     \<Rightarrow> py_exception + nat \<times> database" where
  "store_and_process now f c filename content_type data session =
     (case (if list_ex (\<lambda>x. cf_company_id x = co_id c) (company_files session)
            then storage f Flush_delete
                   (session\<lparr>company_files :=
                      filter (\<lambda>x. cf_company_id x \<noteq> co_id c) (company_files session)\<rparr>)
            else Inr session) of
        Inl e \<Rightarrow> Inl e
      | Inr s1 \<Rightarrow>
          (let company_file =
                 \<lparr>cf_id = next_id (map cf_id (company_files s1)), cf_filename = filename,
                  cf_file_data = data,
                  cf_content_type = (if content_type = [] then default_content_type else content_type),
                  cf_company_id = co_id c, cf_uploaded_at = now, cf_file_password_hash = None\<rparr>
           in case storage f Flush_add (s1\<lparr>company_files := company_files s1 @ [company_file]\<rparr>) of
                Inl e \<Rightarrow> Inl e
              | Inr s2 \<Rightarrow>
                  (case process_excel_data now data (co_id c) s2 of
                     Inl e \<Rightarrow> Inl e
                   | Inr (transaction_count, s3) \<Rightarrow>
                       (case storage f Commit s3 of
                          Inl e \<Rightarrow> Inl e
                        | Inr s4 \<Rightarrow> Inr (transaction_count, s4)))))"

text \<open>Lines 69-117.\<close>

definition upload_file ::
  "nat \<Rightarrow> fault \<Rightarrow> string \<Rightarrow> string \<Rightarrow> string \<Rightarrow> file_data \<Rightarrow> database \<Rightarrow> upload_result" where
  "upload_file now f company_name filename content_type data db =
     (case find_or_create_company now company_name db of
        (c, session, last_commit) \<Rightarrow>
          (case store_and_process now f c filename content_type data session of
             Inr (transaction_count, s) \<Rightarrow>
               \<lparr>committed = s,
                flash_message = ''Successfully processed '' @ str_nat transaction_count
                                 @ '' transactions for '' @ company_name,
                flash_category = ''success'',
                selected_company_id = Some (co_id c)\<rparr>
           | Inl e \<Rightarrow>
               \<lparr>committed = last_commit,
                flash_message = ''Error processing file: '' @ str_exception e,
                flash_category = ''error'',
                selected_company_id = None\<rparr>))"

section \<open>The reports (utils.py)\<close>

subsection \<open>get_ledger_data\<close>





subsection \<open>get_special_report_data\<close>







subsection \<open>get_trial_balance_data\<close>








section \<open>Example data\<close>

text \<open>A small database on which the theorems below are instantiated: company 1 has a
  cash account written in two categories, a sales account and a rent account that
  balances to zero; company 2 has a cash account of its own.\<close>

definition example_transactions :: "transaction list" where
  "example_transactions =
     [\<lparr>t_id = 1, date = Date 2024 1 5, head_of_account = ''Cash'', category = Some ''Assets'',
       description = Some ''paid'', reference = Some ''R2'', debit = 0, credit = 40,
       company_id = 1, created_at = 0\<rparr>,
      \<lparr>t_id = 2, date = Date 2024 1 1, head_of_account = ''Cash'', category = Some ''Assets'',
       description = Some ''opening'', reference = Some ''R1'', debit = 100, credit = 0,
       company_id = 1, created_at = 0\<rparr>,
      \<lparr>t_id = 3, date = Date 2024 1 3, head_of_account = ''Sales'', category = Some ''Income'',
       description = Some [], reference = Some [], debit = 0, credit = 60,
       company_id = 1, created_at = 0\<rparr>,
      \<lparr>t_id = 4, date = Date 2024 2 3, head_of_account = ''Rent'', category = Some ''Expenses'',
       description = Some [], reference = Some [], debit = 30, credit = 30,
       company_id = 1, created_at = 0\<rparr>,
      \<lparr>t_id = 5, date = Date 2024 2 7, head_of_account = ''Cash'', category = Some ''Income'',
       description = Some [], reference = Some [], debit = 5, credit = 0,
       company_id = 1, created_at = 0\<rparr>,
      \<lparr>t_id = 6, date = Date 2024 1 1, head_of_account = ''Cash'', category = Some ''Assets'',
       description = Some [], reference = Some [], debit = 1000, credit = 0,
       company_id = 2, created_at = 0\<rparr>]"

definition example_db :: database where
  "example_db =
     \<lparr>companies = [\<lparr>co_id = 1, co_name = ''Acme'', co_created_at = 0, co_updated_at = 0\<rparr>,
                   \<lparr>co_id = 2, co_name = ''Other'', co_created_at = 0, co_updated_at = 0\<rparr>],
      transactions = example_transactions, company_files = []\<rparr>"

text \<open>An upload into the empty database of a file whose only row has a head-of-account
  cell of two spaces.\<close>

definition all_columns :: "string list" where
  "all_columns = [''Date'', ''Head of Accounts'', ''Category'', ''Description'', ''Ref'', ''Debit'', ''Credit'']"

definition empty_db :: database where
  "empty_db = \<lparr>companies = [], transactions = [], company_files = []\<rparr>"

definition blank_head_file :: dataframe where
  "blank_head_file =
     \<lparr>columns = all_columns,
      rows = [\<lparr>row_date = Some (Date 2024 1 3), row_head_of_account = Some ''  '',
               row_category = Some ''Income'', row_description = None, row_reference = None,
               row_debit = Number 7, row_credit = NaN\<rparr>]\<rparr>"

definition blank_head_db :: database where
  "blank_head_db =
     committed (upload_file 0 None ''Acme'' ''a.xlsx'' [] (Workbook blank_head_file) empty_db)"

text \<open>A file that spells one account in three ways, with a row that has no date and a
  row that has no head of account.\<close>

definition spelling_file :: dataframe where
  "spelling_file =
     \<lparr>columns = all_columns,
      rows = [\<lparr>row_date = Some (Date 2024 1 1), row_head_of_account = Some ''Cash'',
               row_category = Some ''Assets'', row_description = Some ''opening'',
               row_reference = None, row_debit = Number 100, row_credit = NaN\<rparr>,
              \<lparr>row_date = None, row_head_of_account = Some ''cash'',
               row_category = None, row_description = None,
               row_reference = None, row_debit = Number 1, row_credit = NaN\<rparr>,
              \<lparr>row_date = Some (Date 2024 1 2), row_head_of_account = None,
               row_category = None, row_description = None,
               row_reference = None, row_debit = Number 2, row_credit = NaN\<rparr>,
              \<lparr>row_date = Some (Date 2024 1 5), row_head_of_account = Some '' CASH '',
               row_category = Some ''Assets'', row_description = None,
               row_reference = None, row_debit = NaN, row_credit = Text ''40''\<rparr>,
              \<lparr>row_date = Some (Date 2024 1 7), row_head_of_account = Some ''cash'',
               row_category = None, row_description = None,
               row_reference = None, row_debit = Text [], row_credit = Number 10\<rparr>]\<rparr>"


text \<open>A file without the \<^verbatim>\<open>Credit\<close> column.\<close>

definition no_credit_file :: dataframe where
  "no_credit_file =
     \<lparr>columns = [''Date'', ''Head of Accounts'', ''Debit''],
      rows = [\<lparr>row_date = Some (Date 2024 1 1), row_head_of_account = Some ''Cash'',
               row_category = None, row_description = None,
               row_reference = None, row_debit = Number 100, row_credit = NaN\<rparr>]\<rparr>"

section \<open>Notions used in the statements about ingestion\<close>

text \<open>The trimmed head of account of a row, and the rows of a file that survive the row
  filter: those with a date and a head-of-account cell that is neither missing nor the
  empty string (lines 130 and 146).\<close>

definition trimmed_head :: "row \<Rightarrow> string" where
  "trimmed_head r = (case row_head_of_account r of None \<Rightarrow> [] | Some h \<Rightarrow> strip h)"

definition surviving_rows :: "dataframe \<Rightarrow> row list" where
  "surviving_rows df = filter has_head (dropna (rows df))"

text \<open>What a transaction says, apart from its key and its time stamp.\<close>

definition content ::
  "transaction \<Rightarrow> date \<times> string \<times> string option \<times> string option \<times> string option \<times> real \<times> real \<times> nat" where
  "content t =
     (date t, head_of_account t, category t, description t, reference t, debit t, credit t,
      company_id t)"

text \<open>The foreign keys declared in models.py: every transaction and every stored file
  belongs to a company of the database.\<close>

definition foreign_keys_ok :: "database \<Rightarrow> bool" where
  "foreign_keys_ok db =
     (list_all (\<lambda>t. company_id t \<in> set (map co_id (companies db))) (transactions db)
      \<and> list_all (\<lambda>x. cf_company_id x \<in> set (map co_id (companies db))) (company_files db))"

text \<open>An amount cell that \<^verbatim>\<open>float(... or 0)\<close> accepts after \<^verbatim>\<open>fillna(0.0)\<close>: an empty cell, a
  number, the empty text, or text that \<^verbatim>\<open>float()\<close> reads as a number.\<close>

definition readable :: "cell \<Rightarrow> bool" where
  "readable c = (case c of NaN \<Rightarrow> True | Number x \<Rightarrow> True | Text s \<Rightarrow> s = [] \<or> py_float s \<noteq> None)"

section \<open>The period argument of the trial balance\<close>






section \<open>The ledger\<close>








section \<open>The category report\<close>










section \<open>The trial balance\<close>















section \<open>Reports on an unknown company, account or category\<close>







section \<open>Ingestion: the account names\<close>

lemma find_filter: "find P (filter Q xs) = find (\<lambda>x. Q x \<and> P x) xs"
  by (induction xs) auto

lemma head_of_accounts_map_find:
  "head_of_accounts_map m rs k =
     (case m k of
        Some v \<Rightarrow> Some v
      | None \<Rightarrow> map_option trimmed_head
                  (find (\<lambda>r. has_head r \<and> upper (trimmed_head r) = k) rs))"
proof (induction rs arbitrary: m)
  case Nil
  then show ?case by (simp split: option.splits)
next
  case (Cons r rs)
  show ?case
  proof (cases "has_head r")
    case False
    then show ?thesis by (simp add: Cons.IH split: option.splits)
  next
    case True
    then obtain h where h: "row_head_of_account r = Some h" "h \<noteq> []"
      by (auto simp: has_head_def split: option.splits)
    then have th: "trimmed_head r = strip h" by (simp add: trimmed_head_def)
    show ?thesis
      using True h th by (auto simp: Cons.IH Let_def split: option.splits)
  qed
qed

lemma make_transaction_head:
  assumes "make_transaction df m c now i r = Inr t"
  shows "m (upper (trimmed_head r)) = Some (head_of_account t)"
  using assms
  by (auto simp: make_transaction_def trimmed_head_def Let_def split: option.splits sum.splits)

lemma add_transactions_new:
  assumes "add_transactions df m c now rs (n, db) = Inr (n', db')"
  shows "\<exists>new. db' = db\<lparr>transactions := transactions db @ new\<rparr>
           \<and> n' = n + length new
           \<and> length new = length (filter has_head rs)
           \<and> (\<forall>i < length new.
                \<exists>k. make_transaction df m c now k (filter has_head rs ! i) = Inr (new ! i))"
  using assms
proof (induction rs arbitrary: n db)
  case Nil
  then show ?case by simp
next
  case (Cons r rs)
  show ?case
  proof (cases "has_head r")
    case False
    with Cons show ?thesis by simp
  next
    case True
    let ?k = "next_id (map t_id (transactions db))"
    from Cons.prems True obtain t where
      t: "make_transaction df m c now ?k r = Inr t"
      and rest: "add_transactions df m c now rs (n + 1, db\<lparr>transactions := transactions db @ [t]\<rparr>)
                   = Inr (n', db')"
      by (auto split: sum.splits)
    from Cons.IH [OF rest] obtain new where
      new: "db' = db\<lparr>transactions := transactions db @ [t]\<rparr>
                    \<lparr>transactions := transactions (db\<lparr>transactions := transactions db @ [t]\<rparr>) @ new\<rparr>"
        "n' = n + 1 + length new"
        "length new = length (filter has_head rs)"
        "\<forall>i < length new. \<exists>k. make_transaction df m c now k (filter has_head rs ! i) = Inr (new ! i)"
      by blast
    have "\<exists>k. make_transaction df m c now k (filter has_head (r # rs) ! i) = Inr ((t # new) ! i)"
      if "i < length (t # new)" for i
      using that t new(4) True by (cases i) auto
    then show ?thesis
      using new(1,2,3) True by (intro exI [of _ "t # new"]) simp
  qed
qed



lemma process_excel_data_Inr:
  assumes "process_excel_data now (Workbook df) company db = Inr (n, db')"
  shows "missing_columns df = []"
    and "add_transactions df (head_of_accounts_map Map.empty (dropna (rows df))) company now
           (dropna (rows df)) (0, db) = Inr (n, db')"
proof -
  show "missing_columns df = []"
    using assms by (simp add: process_excel_data_def split: if_splits)
  then show "add_transactions df (head_of_accounts_map Map.empty (dropna (rows df))) company now
           (dropna (rows df)) (0, db) = Inr (n, db')"
    using assms
    by (cases "add_transactions df (head_of_accounts_map Map.empty (dropna (rows df))) company now
           (dropna (rows df)) (0, db)")
       (simp_all add: process_excel_data_def Let_def)
qed


lemma first_spelling:
  assumes "make_transaction df (head_of_accounts_map Map.empty kept) company now k r = Inr t"
  shows "\<exists>r0. find (\<lambda>x. upper (trimmed_head x) = upper (trimmed_head r)) (filter has_head kept) = Some r0
              \<and> head_of_account t = trimmed_head r0"
proof -
  have "head_of_accounts_map Map.empty kept (upper (trimmed_head r)) = Some (head_of_account t)"
    using assms by (rule make_transaction_head)
  then have "map_option trimmed_head
               (find (\<lambda>x. has_head x \<and> upper (trimmed_head x) = upper (trimmed_head r)) kept)
             = Some (head_of_account t)"
    by (simp add: head_of_accounts_map_find)
  then obtain r0 where
    "find (\<lambda>x. has_head x \<and> upper (trimmed_head x) = upper (trimmed_head r)) kept = Some r0"
    "trimmed_head r0 = head_of_account t"
    by (cases "find (\<lambda>x. has_head x \<and> upper (trimmed_head x) = upper (trimmed_head r)) kept") auto
  then show ?thesis
    by (simp add: find_filter)
qed


text \<open>
  C5. When a file is ingested, one transaction is stored for each surviving row, in file
  order, and the count returned is their number. The head of account stored for a row is
  the trimmed, original-case head of the first surviving row whose trimmed head equals the
  row's own in upper case. Hence surviving rows whose trimmed heads are equal up to case
  are stored under one and the same spelling, that of the first of them, and the reports,
  which compare stored heads, treat them as one account.
\<close>

theorem canonical_head_of_account:
  assumes "process_excel_data now (Workbook df) company db = Inr (n, db')"
  shows "\<exists>new.
     transactions db' = transactions db @ new
     \<and> length new = length (surviving_rows df)
     \<and> n = length new
     \<and> (\<forall>i < length new.
           \<exists>r0. find (\<lambda>r. upper (trimmed_head r) = upper (trimmed_head (surviving_rows df ! i)))
                   (surviving_rows df) = Some r0
                \<and> head_of_account (new ! i) = trimmed_head r0)
     \<and> (\<forall>i < length new. \<forall>j < length new.
           upper (trimmed_head (surviving_rows df ! i)) = upper (trimmed_head (surviving_rows df ! j))
           \<longrightarrow> head_of_account (new ! i) = head_of_account (new ! j))"
proof -
  define kept where "kept = dropna (rows df)"
  define m where "m = head_of_accounts_map Map.empty kept"
  have S: "surviving_rows df = filter has_head kept"
    by (simp add: surviving_rows_def kept_def)
  have add: "add_transactions df m company now kept (0, db) = Inr (n, db')"
    unfolding m_def kept_def by (rule process_excel_data_Inr(2) [OF assms])
  from add_transactions_new [OF add] obtain new where
    new: "db' = db\<lparr>transactions := transactions db @ new\<rparr>" "n = 0 + length new"
      "length new = length (filter has_head kept)"
      "\<forall>i < length new. \<exists>k. make_transaction df m company now k (filter has_head kept ! i) = Inr (new ! i)"
    by (elim exE conjE)
  have first: "\<exists>r0. find (\<lambda>r. upper (trimmed_head r) = upper (trimmed_head (surviving_rows df ! i)))
                   (surviving_rows df) = Some r0
                \<and> head_of_account (new ! i) = trimmed_head r0"
    if "i < length new" for i
  proof -
    from new(4) that obtain k where
      "make_transaction df m company now k (filter has_head kept ! i) = Inr (new ! i)"
      by blast
    then show ?thesis
      unfolding S m_def by (rule first_spelling)
  qed
  have same: "head_of_account (new ! i) = head_of_account (new ! j)"
    if "i < length new" "j < length new"
      "upper (trimmed_head (surviving_rows df ! i)) = upper (trimmed_head (surviving_rows df ! j))"
    for i j
  proof -
    from first [OF that(1)] obtain r0 where
      a: "find (\<lambda>r. upper (trimmed_head r) = upper (trimmed_head (surviving_rows df ! i)))
                   (surviving_rows df) = Some r0" "head_of_account (new ! i) = trimmed_head r0"
      by (elim exE conjE)
    from first [OF that(2)] obtain r1 where
      b: "find (\<lambda>r. upper (trimmed_head r) = upper (trimmed_head (surviving_rows df ! j)))
                   (surviving_rows df) = Some r1" "head_of_account (new ! j) = trimmed_head r1"
      by (elim exE conjE)
    from a(1) b(1) that(3) have "r0 = r1" by simp
    with a(2) b(2) show ?thesis by simp
  qed
  have t: "transactions db' = transactions db @ new"
    by (simp add: new(1))
  have l: "length new = length (surviving_rows df)"
    by (simp add: new(3) S)
  have c: "n = length new"
    by (simp add: new(2))
  show ?thesis
    apply (rule exI [of _ new])
    apply (intro conjI allI impI)
        apply (rule t)
       apply (rule l)
      apply (rule c)
     apply (erule first)
    apply (erule (2) same)
    done
qed


lemma spelling_file_result:
  "process_excel_data 0 (Workbook spelling_file) 1 empty_db =
     Inr (3, \<lparr>companies = [],
              transactions =
                [\<lparr>t_id = 1, date = Date 2024 1 1, head_of_account = ''Cash'',
                  category = Some ''Assets'', description = Some ''opening'',
                  reference = Some [], debit = 100, credit = 0, company_id = 1, created_at = 0\<rparr>,
                 \<lparr>t_id = 2, date = Date 2024 1 5, head_of_account = ''Cash'',
                  category = Some ''Assets'', description = Some [], reference = Some [],
                  debit = 0, credit = 40, company_id = 1, created_at = 0\<rparr>,
                 \<lparr>t_id = 3, date = Date 2024 1 7, head_of_account = ''Cash'',
                  category = Some [], description = Some [], reference = Some [],
                  debit = 0, credit = 10, company_id = 1, created_at = 0\<rparr>],
              company_files = []\<rparr>)"
  by code_simp

lemma spelling_file_survivors:
  "map trimmed_head (surviving_rows spelling_file) = [''Cash'', ''CASH'', ''cash'']"
  by code_simp

theorem canonical_head_of_account_witness:
  "(\<exists>db'. process_excel_data 0 (Workbook spelling_file) 1 empty_db = Inr (3, db')
          \<and> map head_of_account (transactions db') = [''Cash'', ''Cash'', ''Cash''])
   \<and> map trimmed_head (surviving_rows spelling_file) = [''Cash'', ''CASH'', ''cash'']"
proof -
  from canonical_head_of_account [OF spelling_file_result] obtain new where
    t: "transactions \<lparr>companies = [],
              transactions =
                [\<lparr>t_id = 1, date = Date 2024 1 1, head_of_account = ''Cash'',
                  category = Some ''Assets'', description = Some ''opening'',
                  reference = Some [], debit = 100, credit = 0, company_id = 1, created_at = 0\<rparr>,
                 \<lparr>t_id = 2, date = Date 2024 1 5, head_of_account = ''Cash'',
                  category = Some ''Assets'', description = Some [], reference = Some [],
                  debit = 0, credit = 40, company_id = 1, created_at = 0\<rparr>,
                 \<lparr>t_id = 3, date = Date 2024 1 7, head_of_account = ''Cash'',
                  category = Some [], description = Some [], reference = Some [],
                  debit = 0, credit = 10, company_id = 1, created_at = 0\<rparr>],
              company_files = []\<rparr> = transactions empty_db @ new"
    and l: "length new = length (surviving_rows spelling_file)"
    by (elim exE conjE)
  from t have "map head_of_account new = [''Cash'', ''Cash'', ''Cash'']"
    by (auto simp: empty_db_def)
  then show ?thesis
    using spelling_file_result spelling_file_survivors t by (simp add: empty_db_def)
qed

section \<open>Ingestion: the amounts and the row filter\<close>



lemma amount_value_unreadable:
  "\<not> readable c \<Longrightarrow> \<exists>e. amount_value c = Inl e"
  by (auto simp: readable_def amount_value_def split: cell.splits option.splits)



lemma make_transaction_amounts:
  assumes "make_transaction df m c now k r = Inr t"
  shows "amount_value (row_debit r) = Inr (debit t) \<and> amount_value (row_credit r) = Inr (credit t)"
  using assms
  by (auto simp: make_transaction_def Let_def split: option.splits sum.splits)

lemma make_transaction_unreadable:
  assumes "\<not> readable (row_debit r) \<or> \<not> readable (row_credit r)"
  shows "\<exists>e. make_transaction df m c now k r = Inl e"
proof (cases "make_transaction df m c now k r")
  case (Inl e)
  then show ?thesis by blast
next
  case (Inr t)
  from make_transaction_amounts [OF Inr] assms amount_value_unreadable
  show ?thesis by fastforce
qed


lemma add_transactions_fails:
  assumes "r \<in> set rs" "has_head r" "\<forall>k. \<exists>e. make_transaction df m c now k r = Inl e"
  shows "\<exists>e. add_transactions df m c now rs (n, db) = Inl e"
  using assms(1)
proof (induction rs arbitrary: n db)
  case Nil
  then show ?case by simp
next
  case (Cons x rs)
  show ?case
  proof (cases "x = r")
    case True
    from assms(3) obtain e where
      "make_transaction df m c now (next_id (map t_id (transactions db))) r = Inl e"
      by blast
    with True assms(2) show ?thesis by simp
  next
    case False
    with Cons.prems have "r \<in> set rs" by simp
    from Cons.IH [OF this] show ?thesis
      by (auto split: sum.splits)
  qed
qed


lemma process_excel_data_add:
  assumes "missing_columns df = []"
  shows "process_excel_data now (Workbook df) company db =
           (case add_transactions df (head_of_accounts_map Map.empty (dropna (rows df))) company now
                   (dropna (rows df)) (0, db) of
              Inl e \<Rightarrow> Inl (wrap_failure e)
            | Inr result \<Rightarrow> Inr result)"
  using assms by (simp add: process_excel_data_def Let_def)





text \<open>
  C8 fails on the code. A head-of-account cell of two spaces is neither missing nor the
  empty string, so its row passes the tests of lines 130 and 146; the head is trimmed only
  afterwards (line 148), and the transaction is stored, and counted, with an empty head of
  account.
\<close>

theorem blank_head_is_stored:
  "map row_head_of_account (rows blank_head_file) = [Some ''  '']
   \<and> flash_message (upload_file 0 None ''Acme'' ''a.xlsx'' [] (Workbook blank_head_file) empty_db)
       = ''Successfully processed 1 transactions for Acme''
   \<and> map head_of_account (transactions blank_head_db) = [[]]"
  by code_simp

section \<open>Uploads that fail\<close>

lemma upload_file_cases:
  "(\<exists>c session last e.
      find_or_create_company now name db = (c, session, last)
      \<and> store_and_process now f c filename ct data session = Inl e
      \<and> upload_file now f name filename ct data db =
          \<lparr>committed = last, flash_message = ''Error processing file: '' @ str_exception e,
           flash_category = ''error'', selected_company_id = None\<rparr>)
   \<or> (\<exists>c session last n s.
      find_or_create_company now name db = (c, session, last)
      \<and> store_and_process now f c filename ct data session = Inr (n, s)
      \<and> upload_file now f name filename ct data db =
          \<lparr>committed = s,
           flash_message = ''Successfully processed '' @ str_nat n @ '' transactions for '' @ name,
           flash_category = ''success'', selected_company_id = Some (co_id c)\<rparr>)"
proof -
  obtain c session last where fc: "find_or_create_company now name db = (c, session, last)"
    by (cases "find_or_create_company now name db") auto
  show ?thesis
  proof (cases "store_and_process now f c filename ct data session")
    case (Inl e)
    with fc show ?thesis by (simp add: upload_file_def)
  next
    case (Inr r)
    obtain n s where "r = (n, s)" by (cases r) auto
    with Inr fc show ?thesis by (simp add: upload_file_def)
  qed
qed

lemma find_or_create_existing:
  assumes "find (\<lambda>c. co_name c = name) (companies db) = Some c"
  shows "find_or_create_company now name db =
           (c\<lparr>co_updated_at := now\<rparr>,
            db\<lparr>transactions := filter (\<lambda>t. company_id t \<noteq> co_id c) (transactions db),
               companies := map (\<lambda>x. if co_id x = co_id c then c\<lparr>co_updated_at := now\<rparr> else x)
                              (companies db)\<rparr>,
            db)"
  using assms by (simp add: find_or_create_company_def Let_def)

lemma find_or_create_new:
  assumes "find (\<lambda>c. co_name c = name) (companies db) = None"
  shows "find_or_create_company now name db =
           (\<lparr>co_id = next_id (map co_id (companies db)), co_name = name,
             co_created_at = now, co_updated_at = now\<rparr>,
            db\<lparr>companies := companies db @
               [\<lparr>co_id = next_id (map co_id (companies db)), co_name = name,
                 co_created_at = now, co_updated_at = now\<rparr>]\<rparr>,
            db\<lparr>companies := companies db @
               [\<lparr>co_id = next_id (map co_id (companies db)), co_name = name,
                 co_created_at = now, co_updated_at = now\<rparr>]\<rparr>)"
  using assms by (simp add: find_or_create_company_def Let_def)

lemma failed_upload_state:
  assumes "flash_category (upload_file now f name filename ct data db) = ''error''"
  shows "selected_company_id (upload_file now f name filename ct data db) = None"
    and "find (\<lambda>c. co_name c = name) (companies db) \<noteq> None
         \<Longrightarrow> committed (upload_file now f name filename ct data db) = db"
    and "find (\<lambda>c. co_name c = name) (companies db) = None
         \<Longrightarrow> committed (upload_file now f name filename ct data db) =
             db\<lparr>companies := companies db @
               [\<lparr>co_id = next_id (map co_id (companies db)), co_name = name,
                 co_created_at = now, co_updated_at = now\<rparr>]\<rparr>"
proof -
  from upload_file_cases [of now name db f filename ct data] assms
  obtain c session last e where
    fc: "find_or_create_company now name db = (c, session, last)"
    and up: "upload_file now f name filename ct data db =
          \<lparr>committed = last, flash_message = ''Error processing file: '' @ str_exception e,
           flash_category = ''error'', selected_company_id = None\<rparr>"
    by auto
  show "selected_company_id (upload_file now f name filename ct data db) = None"
    by (simp add: up)
  show "committed (upload_file now f name filename ct data db) = db"
    if "find (\<lambda>c. co_name c = name) (companies db) \<noteq> None"
  proof -
    from that obtain c' where "find (\<lambda>c. co_name c = name) (companies db) = Some c'" by auto
    from find_or_create_existing [OF this, of now] fc have "last = db" by simp
    then show ?thesis by (simp add: up)
  qed
  show "committed (upload_file now f name filename ct data db) =
             db\<lparr>companies := companies db @
               [\<lparr>co_id = next_id (map co_id (companies db)), co_name = name,
                 co_created_at = now, co_updated_at = now\<rparr>]\<rparr>"
    if "find (\<lambda>c. co_name c = name) (companies db) = None"
    using find_or_create_new [OF that, of now] fc by (simp add: up)
qed


lemma process_excel_data_missing:
  assumes "missing_columns df \<noteq> []"
  shows "process_excel_data now (Workbook df) cid s =
           Inl (Exception (''Failed to process Excel data: Missing required columns: ''
                           @ str_join '', '' (missing_columns df)))"
  using assms by (simp add: process_excel_data_def wrap_failure_def)

lemma store_and_process_no_fault:
  assumes "\<And>s. process_excel_data now data (co_id c) s = Inl e"
  shows "store_and_process now None c filename ct data session = Inl e"
  using assms by (simp add: store_and_process_def storage_def Let_def)

lemma store_and_process_process_fails:
  assumes "\<And>s. \<exists>e. process_excel_data now data (co_id c) s = Inl e"
  shows "\<exists>e. store_and_process now f c filename ct data session = Inl e"
proof (cases "store_and_process now f c filename ct data session")
  case (Inl e)
  then show ?thesis by blast
next
  case (Inr r)
  obtain n s4 where r: "r = (n, s4)" by (cases r) auto
  from Inr obtain s2 s3 where "process_excel_data now data (co_id c) s2 = Inr (n, s3)"
    unfolding store_and_process_def Let_def r
    by (simp split: sum.splits if_splits prod.splits)
  with assms [of s2] show ?thesis by simp
qed

lemma store_and_process_fault:
  assumes "f = Some (Flush_add, msg) \<or> f = Some (Commit, msg)"
  shows "\<exists>e. store_and_process now f c filename ct data session = Inl e"
proof (cases "store_and_process now f c filename ct data session")
  case (Inl e)
  then show ?thesis by blast
next
  case (Inr r)
  obtain n s4 where r: "r = (n, s4)" by (cases r) auto
  from Inr obtain s1 s2 s3 where
    "storage f Flush_add s1 = Inr s2" "storage f Commit s3 = Inr s4"
    unfolding store_and_process_def Let_def r
    by (auto split: sum.splits if_splits prod.splits)
  with assms show ?thesis by (auto simp: storage_def)
qed

lemma upload_file_error_if:
  assumes "\<And>c session. \<exists>e. store_and_process now f c filename ct data session = Inl e"
  shows "flash_category (upload_file now f name filename ct data db) = ''error''"
proof -
  obtain c session last where fc: "find_or_create_company now name db = (c, session, last)"
    by (cases "find_or_create_company now name db") auto
  from assms obtain e where "store_and_process now f c filename ct data session = Inl e"
    by blast
  with fc show ?thesis by (simp add: upload_file_def)
qed


lemma process_excel_data_unreadable:
  assumes "missing_columns df = []"
    and "r \<in> set (surviving_rows df)"
    and "\<not> readable (row_debit r) \<or> \<not> readable (row_credit r)"
  shows "\<exists>e. process_excel_data now (Workbook df) cid s = Inl e"
proof -
  from assms(2) have r: "r \<in> set (dropna (rows df))" "has_head r"
    by (simp_all add: surviving_rows_def)
  have "\<forall>k. \<exists>e. make_transaction df (head_of_accounts_map Map.empty (dropna (rows df))) cid now k r
                  = Inl e"
    using make_transaction_unreadable [OF assms(3)] by blast
  from add_transactions_fails [OF r this]
  obtain e where "add_transactions df (head_of_accounts_map Map.empty (dropna (rows df))) cid now
                    (dropna (rows df)) (0, s) = Inl e"
    by blast
  then show ?thesis
    by (simp add: process_excel_data_add [OF assms(1)])
qed

lemma find_name_iff:
  "find (\<lambda>c. co_name c = name) (companies db) = None \<longleftrightarrow>
     (\<forall>c \<in> set (companies db). co_name c \<noteq> name)"
  by (auto simp: find_None_iff)

text \<open>
  C4 (as amended). An upload that ends with an error persists no transaction and no stored
  file, and leaves the selected company as it was. When the company existed, the committed
  database is the one before the upload: the deletion of its transactions and of its file
  is rolled back. When the name was new, the company created for it stays, with no
  transaction and no file: it was committed before the file was read (line 80). An upload
  fails whenever the file lacks a required column, and the message then names the missing
  columns when the storage raised nothing before; whenever a surviving row has an amount
  cell that \<^verbatim>\<open>float()\<close> rejects; and whenever the storage raises at the flush of the new
  file or at the commit.
\<close>

theorem failed_upload_preserves_state:
  "(flash_category (upload_file now f name filename ct data db) = ''error'' \<longrightarrow>
      transactions (committed (upload_file now f name filename ct data db)) = transactions db
      \<and> company_files (committed (upload_file now f name filename ct data db)) = company_files db
      \<and> selected_company_id (upload_file now f name filename ct data db) = None
      \<and> ((\<exists>c \<in> set (companies db). co_name c = name) \<longrightarrow>
            committed (upload_file now f name filename ct data db) = db)
      \<and> ((\<forall>c \<in> set (companies db). co_name c \<noteq> name) \<longrightarrow>
            companies (committed (upload_file now f name filename ct data db)) =
              companies db @ [\<lparr>co_id = next_id (map co_id (companies db)), co_name = name,
                               co_created_at = now, co_updated_at = now\<rparr>]))
   \<and> (data = Workbook df \<and> missing_columns df \<noteq> [] \<longrightarrow>
        flash_category (upload_file now f name filename ct data db) = ''error''
        \<and> (f = None \<longrightarrow>
             flash_message (upload_file now f name filename ct data db) =
               ''Error processing file: Failed to process Excel data: Missing required columns: ''
               @ str_join '', '' (missing_columns df)))
   \<and> (data = Workbook df \<and> missing_columns df = []
        \<and> (\<exists>r \<in> set (surviving_rows df). \<not> readable (row_debit r) \<or> \<not> readable (row_credit r))
        \<longrightarrow> flash_category (upload_file now f name filename ct data db) = ''error'')
   \<and> ((\<exists>msg. f = Some (Flush_add, msg) \<or> f = Some (Commit, msg)) \<longrightarrow>
        flash_category (upload_file now f name filename ct data db) = ''error'')"
proof (intro conjI impI)
  assume err: "flash_category (upload_file now f name filename ct data db) = ''error''"
  note st = failed_upload_state [OF err]
  show "selected_company_id (upload_file now f name filename ct data db) = None"
    by (rule st(1))
  show "committed (upload_file now f name filename ct data db) = db"
    if "\<exists>c \<in> set (companies db). co_name c = name"
    using that st(2) by (simp add: find_name_iff)
  show "companies (committed (upload_file now f name filename ct data db)) =
              companies db @ [\<lparr>co_id = next_id (map co_id (companies db)), co_name = name,
                               co_created_at = now, co_updated_at = now\<rparr>]"
    if "\<forall>c \<in> set (companies db). co_name c \<noteq> name"
    using that st(3) by (simp add: find_name_iff)
  show "transactions (committed (upload_file now f name filename ct data db)) = transactions db"
    using st(2,3) by (cases "find (\<lambda>c. co_name c = name) (companies db)") simp_all
  show "company_files (committed (upload_file now f name filename ct data db)) = company_files db"
    using st(2,3) by (cases "find (\<lambda>c. co_name c = name) (companies db)") simp_all
next
  assume a: "data = Workbook df \<and> missing_columns df \<noteq> []"
  then have m: "\<And>cid s. process_excel_data now data cid s =
           Inl (Exception (''Failed to process Excel data: Missing required columns: ''
                           @ str_join '', '' (missing_columns df)))"
    by (simp add: process_excel_data_missing)
  show "flash_category (upload_file now f name filename ct data db) = ''error''"
    by (rule upload_file_error_if, rule store_and_process_process_fails) (simp add: m)
  show "flash_message (upload_file now f name filename ct data db) =
               ''Error processing file: Failed to process Excel data: Missing required columns: ''
               @ str_join '', '' (missing_columns df)"
    if "f = None"
  proof -
    obtain c session last where fc: "find_or_create_company now name db = (c, session, last)"
      by (cases "find_or_create_company now name db") auto
    have "store_and_process now None c filename ct data session =
            Inl (Exception (''Failed to process Excel data: Missing required columns: ''
                           @ str_join '', '' (missing_columns df)))"
      by (rule store_and_process_no_fault) (rule m)
    with fc that show ?thesis by (simp add: upload_file_def)
  qed
next
  assume a: "data = Workbook df \<and> missing_columns df = []
        \<and> (\<exists>r \<in> set (surviving_rows df). \<not> readable (row_debit r) \<or> \<not> readable (row_credit r))"
  then obtain r where "r \<in> set (surviving_rows df)"
    "\<not> readable (row_debit r) \<or> \<not> readable (row_credit r)"
    by blast
  with a have "\<And>cid s. \<exists>e. process_excel_data now data cid s = Inl e"
    using process_excel_data_unreadable by blast
  then show "flash_category (upload_file now f name filename ct data db) = ''error''"
    by (intro upload_file_error_if store_and_process_process_fails)
next
  assume "\<exists>msg. f = Some (Flush_add, msg) \<or> f = Some (Commit, msg)"
  then obtain msg where "f = Some (Flush_add, msg) \<or> f = Some (Commit, msg)"
    by blast
  then show "flash_category (upload_file now f name filename ct data db) = ''error''"
    by (intro upload_file_error_if store_and_process_fault)
qed


lemma no_credit_upload_fails:
  "flash_category (upload_file 9 None ''Acme'' ''a.xlsx'' [] (Workbook no_credit_file) example_db)
     = ''error''"
  by code_simp

theorem failed_upload_preserves_state_witness:
  "flash_category (upload_file 9 None ''Acme'' ''a.xlsx'' [] (Workbook no_credit_file) example_db)
     = ''error''
   \<and> missing_columns no_credit_file = [''Credit'']
   \<and> flash_message (upload_file 9 None ''Acme'' ''a.xlsx'' [] (Workbook no_credit_file) example_db)
       = ''Error processing file: Failed to process Excel data: Missing required columns: Credit''
   \<and> committed (upload_file 9 None ''Acme'' ''a.xlsx'' [] (Workbook no_credit_file) example_db)
       = example_db"
proof -
  have mc: "missing_columns no_credit_file = [''Credit'']"
    by code_simp
  have ex: "\<exists>c \<in> set (companies example_db). co_name c = ''Acme''"
    by (simp add: example_db_def)
  note th = failed_upload_preserves_state
    [where now = 9 and f = None and name = "''Acme''" and filename = "''a.xlsx''" and ct = "[]"
       and data = "Workbook no_credit_file" and db = example_db and df = no_credit_file]
  from th no_credit_upload_fails ex
  have c: "committed (upload_file 9 None ''Acme'' ''a.xlsx'' [] (Workbook no_credit_file) example_db)
       = example_db"
    by blast
  from th mc
  have m: "flash_message (upload_file 9 None ''Acme'' ''a.xlsx'' [] (Workbook no_credit_file) example_db)
       = ''Error processing file: Failed to process Excel data: Missing required columns: ''
         @ str_join '', '' (missing_columns no_credit_file)"
    by simp
  show ?thesis
    using no_credit_upload_fails mc c m by simp
qed

text \<open>
  C4 as stated does not hold for a new company name: the upload of a file without the
  \<^verbatim>\<open>Credit\<close> column into the empty database fails, and the database then holds the new
  company.
\<close>

theorem failed_upload_keeps_new_company:
  "flash_category (upload_file 9 None ''Acme'' ''a.xlsx'' [] (Workbook no_credit_file) empty_db)
     = ''error''
   \<and> companies empty_db = []
   \<and> companies (committed
        (upload_file 9 None ''Acme'' ''a.xlsx'' [] (Workbook no_credit_file) empty_db))
       = [\<lparr>co_id = 1, co_name = ''Acme'', co_created_at = 9, co_updated_at = 9\<rparr>]"
  by code_simp

section \<open>Uploading the same file again\<close>

lemma storage_Inr: "storage f st db = Inr db' \<Longrightarrow> db' = db"
  by (auto simp: storage_def split: option.splits prod.splits if_splits)

lemma storage_None: "storage None st db = Inr db"
  by (simp add: storage_def)

lemma no_file_filter:
  "\<not> list_ex (\<lambda>x. cf_company_id x = cid) fs \<Longrightarrow> filter (\<lambda>x. cf_company_id x \<noteq> cid) fs = fs"
  by (induction fs) auto

lemma store_and_process_Inr:
  assumes "store_and_process now f c filename ct data session = Inr (n, s)"
  shows "\<exists>nf. cf_company_id nf = co_id c
           \<and> process_excel_data now data (co_id c)
                (session\<lparr>company_files :=
                   filter (\<lambda>x. cf_company_id x \<noteq> co_id c) (company_files session) @ [nf]\<rparr>)
              = Inr (n, s)"
proof -
  define s1 where "s1 = session\<lparr>company_files :=
                      filter (\<lambda>x. cf_company_id x \<noteq> co_id c) (company_files session)\<rparr>"
  define nf where "nf = \<lparr>cf_id = next_id (map cf_id (company_files s1)), cf_filename = filename,
                  cf_file_data = data,
                  cf_content_type = (if ct = [] then default_content_type else ct),
                  cf_company_id = co_id c, cf_uploaded_at = now, cf_file_password_hash = None\<rparr>"
  have pre: "(if list_ex (\<lambda>x. cf_company_id x = co_id c) (company_files session)
            then storage f Flush_delete s1 else Inr session) = Inr s1
           \<or> (\<exists>e. (if list_ex (\<lambda>x. cf_company_id x = co_id c) (company_files session)
            then storage f Flush_delete s1 else Inr session) = Inl e)"
  proof (cases "list_ex (\<lambda>x. cf_company_id x = co_id c) (company_files session)")
    case True
    then show ?thesis
      by (cases "storage f Flush_delete s1") (auto dest: storage_Inr)
  next
    case False
    then have "s1 = session"
      by (simp add: s1_def no_file_filter)
    with False show ?thesis by simp
  qed
  from assms have "\<exists>s2 s3. storage f Flush_add (s1\<lparr>company_files := company_files s1 @ [nf]\<rparr>) = Inr s2
      \<and> process_excel_data now data (co_id c) s2 = Inr (n, s3)
      \<and> storage f Commit s3 = Inr s"
    using pre unfolding store_and_process_def Let_def nf_def s1_def
    by (auto split: sum.splits prod.splits)
  then obtain s2 s3 where
    a: "storage f Flush_add (s1\<lparr>company_files := company_files s1 @ [nf]\<rparr>) = Inr s2"
    and b: "process_excel_data now data (co_id c) s2 = Inr (n, s3)"
    and c: "storage f Commit s3 = Inr s"
    by blast
  from storage_Inr [OF a] storage_Inr [OF c] b
  have "process_excel_data now data (co_id c) (s1\<lparr>company_files := company_files s1 @ [nf]\<rparr>)
          = Inr (n, s)"
    by simp
  moreover have "cf_company_id nf = co_id c"
    by (simp add: nf_def)
  ultimately show ?thesis
    unfolding s1_def by (intro exI [of _ nf]) simp
qed

lemma store_and_process_None:
  "\<exists>nf. cf_company_id nf = co_id c
     \<and> store_and_process now None c filename ct data session =
         (case process_excel_data now data (co_id c)
                 (session\<lparr>company_files :=
                    filter (\<lambda>x. cf_company_id x \<noteq> co_id c) (company_files session) @ [nf]\<rparr>) of
            Inl e \<Rightarrow> Inl e
          | Inr r \<Rightarrow> Inr r)"
proof -
  define s1 where "s1 = session\<lparr>company_files :=
                      filter (\<lambda>x. cf_company_id x \<noteq> co_id c) (company_files session)\<rparr>"
  define nf where "nf = \<lparr>cf_id = next_id (map cf_id (company_files s1)), cf_filename = filename,
                  cf_file_data = data,
                  cf_content_type = (if ct = [] then default_content_type else ct),
                  cf_company_id = co_id c, cf_uploaded_at = now, cf_file_password_hash = None\<rparr>"
  have pre: "(if list_ex (\<lambda>x. cf_company_id x = co_id c) (company_files session)
            then storage None Flush_delete s1 else Inr session) = Inr s1"
  proof (cases "list_ex (\<lambda>x. cf_company_id x = co_id c) (company_files session)")
    case True
    then show ?thesis by (simp add: storage_None)
  next
    case False
    then have "s1 = session"
      by (simp add: s1_def no_file_filter)
    with False show ?thesis by simp
  qed
  have "store_and_process now None c filename ct data session =
         (case process_excel_data now data (co_id c) (s1\<lparr>company_files := company_files s1 @ [nf]\<rparr>) of
            Inl e \<Rightarrow> Inl e
          | Inr r \<Rightarrow> Inr r)"
    using pre unfolding store_and_process_def Let_def nf_def s1_def
    by (auto simp: storage_None split: sum.splits prod.splits)
  moreover have "cf_company_id nf = co_id c"
    by (simp add: nf_def)
  ultimately show ?thesis
    unfolding s1_def by (intro exI [of _ nf]) simp
qed


lemma make_transaction_rerun:
  assumes "make_transaction df m c now k r = Inr t"
  shows "make_transaction df m c now2 k r = Inr (t\<lparr>created_at := now2\<rparr>)"
    and "company_id t = c" and "t_id t = k"
  using assms
  by (auto simp: make_transaction_def Let_def split: option.splits sum.splits)

lemma add_transactions_rerun:
  assumes "add_transactions df m c now rs (n, db) = Inr (n', db')"
    and "map t_id (transactions db2) = map t_id (transactions db)"
  shows "\<exists>new. db' = db\<lparr>transactions := transactions db @ new\<rparr>
           \<and> n' = n + length new
           \<and> list_all (\<lambda>t. company_id t = c) new
           \<and> add_transactions df m c now2 rs (n2, db2) =
               Inr (n2 + length new,
                    db2\<lparr>transactions := transactions db2 @ map (\<lambda>t. t\<lparr>created_at := now2\<rparr>) new\<rparr>)"
  using assms
proof (induction rs arbitrary: n db n2 db2)
  case Nil
  then show ?case by simp
next
  case (Cons r rs)
  show ?case
  proof (cases "has_head r")
    case False
    with Cons.prems have "add_transactions df m c now rs (n, db) = Inr (n', db')"
      by simp
    from Cons.IH [OF this Cons.prems(2), of n2] False show ?thesis
      by simp
  next
    case True
    let ?k = "next_id (map t_id (transactions db))"
    from Cons.prems(1) True obtain t where
      t: "make_transaction df m c now ?k r = Inr t"
      and rest: "add_transactions df m c now rs (n + 1, db\<lparr>transactions := transactions db @ [t]\<rparr>)
                   = Inr (n', db')"
      by (auto split: sum.splits)
    note t2 = make_transaction_rerun(1) [OF t, of now2]
    note tc = make_transaction_rerun(2) [OF t]
    let ?db1 = "db\<lparr>transactions := transactions db @ [t]\<rparr>"
    let ?db2 = "db2\<lparr>transactions := transactions db2 @ [t\<lparr>created_at := now2\<rparr>]\<rparr>"
    have ids: "map t_id (transactions ?db2) = map t_id (transactions ?db1)"
      using Cons.prems(2) by simp
    have step2: "add_transactions df m c now2 (r # rs) (n2, db2) =
                 add_transactions df m c now2 rs (n2 + 1, ?db2)"
      using True t2 Cons.prems(2) by simp
    from Cons.IH [OF rest ids, of "n2 + 1"] obtain new where
      new: "db' = ?db1\<lparr>transactions := transactions ?db1 @ new\<rparr>"
        "n' = n + 1 + length new"
        "list_all (\<lambda>t. company_id t = c) new"
        "add_transactions df m c now2 rs (n2 + 1, ?db2) =
               Inr (n2 + 1 + length new,
                    ?db2\<lparr>transactions := transactions ?db2 @ map (\<lambda>t. t\<lparr>created_at := now2\<rparr>) new\<rparr>)"
      by (elim exE conjE)
    show ?thesis
      apply (rule exI [of _ "t # new"])
      using new tc unfolding step2 by simp
  qed
qed

lemma process_excel_data_rerun:
  assumes "process_excel_data now data c s = Inr (n, s')"
    and "map t_id (transactions s2) = map t_id (transactions s)"
  shows "\<exists>new. s' = s\<lparr>transactions := transactions s @ new\<rparr>
           \<and> n = length new
           \<and> list_all (\<lambda>t. company_id t = c) new
           \<and> process_excel_data now2 data c s2 =
               Inr (n, s2\<lparr>transactions := transactions s2 @ map (\<lambda>t. t\<lparr>created_at := now2\<rparr>) new\<rparr>)"
proof (cases data)
  case (Unreadable msg)
  with assms(1) show ?thesis by (simp add: process_excel_data_def)
next
  case (Workbook df)
  note p = process_excel_data_Inr [OF assms(1) [unfolded Workbook]]
  from add_transactions_rerun [OF p(2) assms(2), of now2 0] obtain new where
    new: "s' = s\<lparr>transactions := transactions s @ new\<rparr>" "n = 0 + length new"
      "list_all (\<lambda>t. company_id t = c) new"
      "add_transactions df (head_of_accounts_map Map.empty (dropna (rows df))) c now2
         (dropna (rows df)) (0, s2) =
        Inr (0 + length new,
             s2\<lparr>transactions := transactions s2 @ map (\<lambda>t. t\<lparr>created_at := now2\<rparr>) new\<rparr>)"
    by (elim exE conjE)
  show ?thesis
    apply (rule exI [of _ new])
    using new p(1) unfolding Workbook by (simp add: process_excel_data_add)
qed


lemma next_id_fresh: "x \<in> set ids \<Longrightarrow> x < next_id ids"
  by (induction ids) (auto simp: next_id_def)

lemma find_after_touch:
  assumes "find (\<lambda>x. co_name x = name) cs = Some c"
  shows "find (\<lambda>x. co_name x = name)
           (map (\<lambda>x. if co_id x = co_id c then c\<lparr>co_updated_at := now\<rparr> else x) cs)
         = Some (c\<lparr>co_updated_at := now\<rparr>)"
proof -
  from assms have n: "co_name c = name"
    by (auto simp: find_Some_iff)
  from assms show ?thesis
    by (induction cs) (auto simp: n split: if_splits)
qed

lemma find_appended:
  "find P cs = None \<Longrightarrow> P c \<Longrightarrow> find P (cs @ [c]) = Some c"
  by (induction cs) (auto split: if_splits)

lemma first_upload_company:
  assumes "find_or_create_company now name db = (c, session, saved)"
    and "foreign_keys_ok db"
  shows "find (\<lambda>x. co_name x = name) (companies session) = Some c"
    and "list_all (\<lambda>t. company_id t \<noteq> co_id c) (transactions session)"
proof -
  show "find (\<lambda>x. co_name x = name) (companies session) = Some c"
  proof (cases "find (\<lambda>x. co_name x = name) (companies db)")
    case None
    from find_or_create_new [OF None, of now] assms(1) show ?thesis
      by (auto simp: find_appended [OF None])
  next
    case (Some c0)
    from find_or_create_existing [OF Some, of now] assms(1) find_after_touch [OF Some, of now]
    show ?thesis by auto
  qed
  show "list_all (\<lambda>t. company_id t \<noteq> co_id c) (transactions session)"
  proof (cases "find (\<lambda>x. co_name x = name) (companies db)")
    case None
    have "company_id t \<noteq> next_id (map co_id (companies db))" if "t \<in> set (transactions db)" for t
    proof -
      from assms(2) that have "company_id t \<in> set (map co_id (companies db))"
        by (simp add: foreign_keys_ok_def list_all_iff)
      from next_id_fresh [OF this] show ?thesis by simp
    qed
    with find_or_create_new [OF None, of now] assms(1) show ?thesis
      by (auto simp: list_all_iff)
  next
    case (Some c0)
    from find_or_create_existing [OF Some, of now] assms(1)
    show ?thesis by (auto simp: list_all_iff)
  qed
qed


lemma upload_success:
  assumes "flash_category (upload_file now f name filename ct data db) = ''success''"
  shows "\<exists>c session saved n s.
      find_or_create_company now name db = (c, session, saved)
      \<and> store_and_process now f c filename ct data session = Inr (n, s)
      \<and> upload_file now f name filename ct data db =
          \<lparr>committed = s,
           flash_message = ''Successfully processed '' @ str_nat n @ '' transactions for '' @ name,
           flash_category = ''success'', selected_company_id = Some (co_id c)\<rparr>"
  using upload_file_cases [of now name db f filename ct data] assms by auto

text \<open>
  C6. Let an upload of a file for a company name succeed, on a database whose foreign keys
  hold, and let the same file be uploaded again for the same name, the storage raising
  nothing. Then the second upload succeeds for the same company and reports the same count
  as the first. The company's transactions after the second upload say the same as after
  the first, in the same order, and their number is the count reported, not twice it: the
  transactions and the file of the first upload were deleted before the new ones were
  added. The transactions of the other companies are the same, and the company has one
  stored file.
\<close>

theorem reingestion_replaces:
  assumes "foreign_keys_ok db"
    and "flash_category (upload_file now1 f name filename1 ct1 data db) = ''success''"
  shows "\<exists>cid n.
      selected_company_id (upload_file now1 f name filename1 ct1 data db) = Some cid
      \<and> flash_message (upload_file now1 f name filename1 ct1 data db) =
          ''Successfully processed '' @ str_nat n @ '' transactions for '' @ name
      \<and> length (filter (\<lambda>t. company_id t = cid)
                  (transactions (committed (upload_file now1 f name filename1 ct1 data db)))) = n
      \<and> selected_company_id
          (upload_file now2 None name filename2 ct2 data
             (committed (upload_file now1 f name filename1 ct1 data db))) = Some cid
      \<and> flash_category
          (upload_file now2 None name filename2 ct2 data
             (committed (upload_file now1 f name filename1 ct1 data db))) = ''success''
      \<and> flash_message
          (upload_file now2 None name filename2 ct2 data
             (committed (upload_file now1 f name filename1 ct1 data db))) =
          ''Successfully processed '' @ str_nat n @ '' transactions for '' @ name
      \<and> map content (filter (\<lambda>t. company_id t = cid)
            (transactions (committed
               (upload_file now2 None name filename2 ct2 data
                  (committed (upload_file now1 f name filename1 ct1 data db))))))
          = map content (filter (\<lambda>t. company_id t = cid)
              (transactions (committed (upload_file now1 f name filename1 ct1 data db))))
      \<and> filter (\<lambda>t. company_id t \<noteq> cid)
            (transactions (committed
               (upload_file now2 None name filename2 ct2 data
                  (committed (upload_file now1 f name filename1 ct1 data db)))))
          = filter (\<lambda>t. company_id t \<noteq> cid)
              (transactions (committed (upload_file now1 f name filename1 ct1 data db)))
      \<and> length (filter (\<lambda>x. cf_company_id x = cid)
            (company_files (committed
               (upload_file now2 None name filename2 ct2 data
                  (committed (upload_file now1 f name filename1 ct1 data db)))))) = 1"
proof -
  from upload_success [OF assms(2)] obtain c session saved n s where
    fc: "find_or_create_company now1 name db = (c, session, saved)"
    and sp: "store_and_process now1 f c filename1 ct1 data session = Inr (n, s)"
    and r1: "upload_file now1 f name filename1 ct1 data db =
          \<lparr>committed = s,
           flash_message = ''Successfully processed '' @ str_nat n @ '' transactions for '' @ name,
           flash_category = ''success'', selected_company_id = Some (co_id c)\<rparr>"
    by (elim exE conjE)
  define cid where "cid = co_id c"
  note co = first_upload_company [OF fc assms(1)]
  have base: "filter (\<lambda>t. company_id t \<noteq> cid) (transactions session) = transactions session"
    "filter (\<lambda>t. company_id t = cid) (transactions session) = []"
    using co(2) by (auto simp: cid_def list_all_iff filter_empty_conv)
  from store_and_process_Inr [OF sp] obtain nf1 where
    p1: "process_excel_data now1 data cid
           (session\<lparr>company_files :=
              filter (\<lambda>x. cf_company_id x \<noteq> cid) (company_files session) @ [nf1]\<rparr>) = Inr (n, s)"
    unfolding cid_def by (elim exE conjE)
  let ?S1 = "session\<lparr>company_files :=
              filter (\<lambda>x. cf_company_id x \<noteq> cid) (company_files session) @ [nf1]\<rparr>"
  \<comment> \<open>the second upload\<close>
  from process_excel_data_rerun [OF p1 refl, of now1] obtain new where
    s: "s = ?S1\<lparr>transactions := transactions ?S1 @ new\<rparr>"
    and n: "n = length new"
    and own: "list_all (\<lambda>t. company_id t = cid) new"
    by (elim exE conjE)
  have new_f: "filter (\<lambda>t. company_id t \<noteq> cid) new = []" "filter (\<lambda>t. company_id t = cid) new = new"
    using own by (auto simp: list_all_iff filter_empty_conv filter_id_conv)
  have ts: "transactions s = transactions session @ new"
    by (simp add: s)
  have find2: "find (\<lambda>x. co_name x = name) (companies s) = Some c"
    using co(1) by (simp add: s)
  define c2 where "c2 = c\<lparr>co_updated_at := now2\<rparr>"
  define session2 where
    "session2 = s\<lparr>transactions := filter (\<lambda>t. company_id t \<noteq> co_id c) (transactions s),
                  companies := map (\<lambda>x. if co_id x = co_id c then c2 else x) (companies s)\<rparr>"
  have fc2: "find_or_create_company now2 name s = (c2, session2, s)"
    unfolding c2_def session2_def by (rule find_or_create_existing [OF find2])
  have id2: "co_id c2 = cid"
    by (simp add: c2_def cid_def)
  have ts2: "transactions session2 = transactions session"
    by (simp add: session2_def ts cid_def [symmetric] base new_f)
  from store_and_process_None [of c2 now2 filename2 ct2 data session2] obtain nf2 where
    nf2: "cf_company_id nf2 = cid"
    and sp2: "store_and_process now2 None c2 filename2 ct2 data session2 =
         (case process_excel_data now2 data cid
                 (session2\<lparr>company_files :=
                    filter (\<lambda>x. cf_company_id x \<noteq> cid) (company_files session2) @ [nf2]\<rparr>) of
            Inl e \<Rightarrow> Inl e
          | Inr r \<Rightarrow> Inr r)"
    unfolding id2 by (elim exE conjE)
  let ?S2 = "session2\<lparr>company_files :=
                    filter (\<lambda>x. cf_company_id x \<noteq> cid) (company_files session2) @ [nf2]\<rparr>"
  have ids: "map t_id (transactions ?S2) = map t_id (transactions ?S1)"
    by (simp add: ts2)
  from process_excel_data_rerun [OF p1 ids, of now2] obtain new' where
    s': "s = ?S1\<lparr>transactions := transactions ?S1 @ new'\<rparr>"
    and p2: "process_excel_data now2 data cid ?S2 =
               Inr (n, ?S2\<lparr>transactions := transactions ?S2
                              @ map (\<lambda>t. t\<lparr>created_at := now2\<rparr>) new'\<rparr>)"
    by (elim exE conjE)
  have "transactions s = transactions session @ new'"
    by (subst s') simp
  with ts have "new' = new"
    by simp
  define s2 where "s2 = ?S2\<lparr>transactions := transactions ?S2
                              @ map (\<lambda>t. t\<lparr>created_at := now2\<rparr>) new\<rparr>"
  have r2: "upload_file now2 None name filename2 ct2 data s =
          \<lparr>committed = s2,
           flash_message = ''Successfully processed '' @ str_nat n @ '' transactions for '' @ name,
           flash_category = ''success'', selected_company_id = Some cid\<rparr>"
    using fc2 sp2 p2 \<open>new' = new\<close> by (simp add: upload_file_def s2_def id2)
  have t2: "transactions s2 = transactions session @ map (\<lambda>t. t\<lparr>created_at := now2\<rparr>) new"
    by (simp add: s2_def ts2)
  have new2_f: "filter (\<lambda>t. company_id t \<noteq> cid) (map (\<lambda>t. t\<lparr>created_at := now2\<rparr>) new) = []"
    "filter (\<lambda>t. company_id t = cid) (map (\<lambda>t. t\<lparr>created_at := now2\<rparr>) new)
       = map (\<lambda>t. t\<lparr>created_at := now2\<rparr>) new"
    using own by (auto simp: list_all_iff filter_empty_conv filter_id_conv)
  have files: "filter (\<lambda>x. cf_company_id x = cid) (company_files s2) = [nf2]"
    using nf2 by (simp add: s2_def filter_empty_conv)
  have c1: "committed (upload_file now1 f name filename1 ct1 data db) = s"
    by (simp add: r1)
  show ?thesis
    apply (rule exI [of _ cid])
    apply (rule exI [of _ n])
    unfolding c1 r2
    apply (simp only: upload_result.simps)
    apply (intro conjI)
            apply (simp add: r1 cid_def)
           apply (simp add: r1)
          apply (simp add: ts base new_f n)
         apply simp
        apply simp
       apply simp
      apply (simp add: ts t2 base new_f new2_f content_def)
     apply (simp add: ts t2 base new_f new2_f)
    apply (simp add: files)
    done
qed


lemma example_first_upload:
  "foreign_keys_ok example_db"
  "flash_category (upload_file 5 None ''Acme'' ''a.xlsx'' [] (Workbook spelling_file) example_db)
     = ''success''"
  "selected_company_id (upload_file 5 None ''Acme'' ''a.xlsx'' [] (Workbook spelling_file) example_db)
     = Some 1"
  "length (filter (\<lambda>t. company_id t = 1)
     (transactions (committed
        (upload_file 5 None ''Acme'' ''a.xlsx'' [] (Workbook spelling_file) example_db)))) = 3"
  by code_simp+

theorem reingestion_replaces_witness:
  "foreign_keys_ok example_db
   \<and> flash_category (upload_file 5 None ''Acme'' ''a.xlsx'' [] (Workbook spelling_file) example_db)
       = ''success''
   \<and> flash_message (upload_file 5 None ''Acme'' ''a.xlsx'' [] (Workbook spelling_file) example_db)
       = ''Successfully processed '' @ str_nat 3 @ '' transactions for Acme''
   \<and> flash_message
        (upload_file 6 None ''Acme'' ''b.xlsx'' [] (Workbook spelling_file)
           (committed (upload_file 5 None ''Acme'' ''a.xlsx'' [] (Workbook spelling_file) example_db)))
       = ''Successfully processed '' @ str_nat 3 @ '' transactions for Acme''
   \<and> map content (filter (\<lambda>t. company_id t = 1)
         (transactions (committed
            (upload_file 6 None ''Acme'' ''b.xlsx'' [] (Workbook spelling_file)
               (committed (upload_file 5 None ''Acme'' ''a.xlsx'' [] (Workbook spelling_file) example_db))))))
       = map content (filter (\<lambda>t. company_id t = 1)
           (transactions (committed
              (upload_file 5 None ''Acme'' ''a.xlsx'' [] (Workbook spelling_file) example_db))))"
proof -
  from reingestion_replaces [OF example_first_upload(1,2), of 6 "''b.xlsx''" "[]"]
  obtain cid n where
    a: "selected_company_id (upload_file 5 None ''Acme'' ''a.xlsx'' [] (Workbook spelling_file) example_db)
          = Some cid"
    and b: "flash_message (upload_file 5 None ''Acme'' ''a.xlsx'' [] (Workbook spelling_file) example_db) =
          ''Successfully processed '' @ str_nat n @ '' transactions for '' @ ''Acme''"
    and c: "length (filter (\<lambda>t. company_id t = cid)
                  (transactions (committed (upload_file 5 None ''Acme'' ''a.xlsx'' [] (Workbook spelling_file) example_db)))) = n"
    and d: "flash_message
          (upload_file 6 None ''Acme'' ''b.xlsx'' [] (Workbook spelling_file)
             (committed (upload_file 5 None ''Acme'' ''a.xlsx'' [] (Workbook spelling_file) example_db))) =
          ''Successfully processed '' @ str_nat n @ '' transactions for '' @ ''Acme''"
    and e: "map content (filter (\<lambda>t. company_id t = cid)
            (transactions (committed
               (upload_file 6 None ''Acme'' ''b.xlsx'' [] (Workbook spelling_file)
                  (committed (upload_file 5 None ''Acme'' ''a.xlsx'' [] (Workbook spelling_file) example_db))))))
          = map content (filter (\<lambda>t. company_id t = cid)
              (transactions (committed (upload_file 5 None ''Acme'' ''a.xlsx'' [] (Workbook spelling_file) example_db))))"
    by (elim exE conjE)
  from a example_first_upload(3) have cid: "cid = 1" by simp
  from c example_first_upload(4) have n: "n = 3" unfolding cid by simp
  show ?thesis
    using example_first_upload(1,2) b d e unfolding cid n by simp
qed

end
